theory Spec2Isabelle
  imports Main "HOL-Library.Word"
begin

section \<open>Values of the transaction tool (src/cmds/tx.py)\<close>

text \<open>
  Python \<open>bytes\<close> are lists of 8-bit words, Python integers are unbounded (\<open>int\<close>).
\<close>

type_synonym byte = "8 word"
type_synonym bytes = "byte list"

text \<open>
  Every exception the module can raise is a value. Both \<open>ValueError\<close>s of
  \<open>create_unsigned_transaction\<close> are kept apart by their message: the one of line 85
  ("tx create requires one or more input_coins") and the one of lines 98-102
  ("input amounts (..) are less than outputs (..)", with the two sums). An \<open>assert\<close>
  that fails is \<open>AssertionError\<close> (the module is run as it is, with its \<open>assert\<close>
  statements executed); reading an attribute an object does not have is
  \<open>AttributeError\<close>; \<open>d[k]\<close> with \<open>k\<close> not in the dict is \<open>KeyError k\<close>. An
  imported function that raises returns whatever error it chooses
  (\<open>CollaboratorError\<close> for one that is none of the above). The \<open>print\<close> calls of
  lines 62, 118 and 149 write to the terminal and are left out.
\<close>

datatype error =
    ValueError_no_inputs
  | ValueError_outputs int int
  | ValueError_fromhex
  | AssertionError
  | AttributeError string
  | KeyError string
  | TypeError
  | CollaboratorError string

text \<open>
  The value \<open>json.loads\<close> returns (numbers are integer literals; a description with
  a fractional number is outside this model). A dict is an association list read with
  \<open>map_of\<close>.
\<close>

datatype json =
    JNull
  | JBool bool
  | JInt int
  | JStr string
  | JList "json list"
  | JObj "(string \<times> json) list"

text \<open>
  Modelled from the spec: the conditions built by \<open>make_create_coin_condition\<close>,
  \<open>make_assert_coin_consumed_condition\<close>, \<open>make_assert_time_exceeds_condition\<close>,
  \<open>make_assert_my_coin_id_condition\<close> and \<open>make_assert_fee_condition\<close> of
  src/wallet/puzzles/puzzle_utils.py, which is not among the sources. The spec's data
  model gives a condition as a tagged variant with these five tags and payloads.
\<close>

datatype condition =
    CreateCoin bytes int
  | AssertCoinConsumed bytes
  | AssertTimeExceeds int
  | AssertMyCoinId bytes
  | AssertFee int

definition make_create_coin_condition :: "bytes \<Rightarrow> int \<Rightarrow> condition" where
  "make_create_coin_condition puzzle_hash amount = CreateCoin puzzle_hash amount"

definition make_assert_coin_consumed_condition :: "bytes \<Rightarrow> condition" where
  "make_assert_coin_consumed_condition coin_name = AssertCoinConsumed coin_name"

definition make_assert_time_exceeds_condition :: "int \<Rightarrow> condition" where
  "make_assert_time_exceeds_condition time = AssertTimeExceeds time"

definition make_assert_my_coin_id_condition :: "bytes \<Rightarrow> condition" where
  "make_assert_my_coin_id_condition coin_name = AssertMyCoinId coin_name"

definition make_assert_fee_condition :: "int \<Rightarrow> condition" where
  "make_assert_fee_condition fee = AssertFee fee"

text \<open>
  Modelled from the spec: \<open>Coin\<close> of src/types/coin.py, which is not among the
  sources. The spec gives it three fields (parent id, puzzle hash, amount) and no
  other; line 136 builds it from exactly these three.
\<close>

record Coin =
  parent_coin_info :: bytes
  puzzle_hash :: bytes
  amount :: int

text \<open>
  Line 120 reads \<open>coin.pubkey\<close> on a \<open>Coin\<close>. The class has no such attribute, so
  the read raises \<open>AttributeError\<close> whatever the coin is.
\<close>

definition Coin_pubkey :: "Coin \<Rightarrow> error + 'pk" where
  "Coin_pubkey c = Inl (AttributeError ''pubkey'')"

text \<open>The class \<open>SpendRequest\<close> (lines 66-72).\<close>

record SpendRequest =
  sr_puzzle_hash :: bytes
  sr_amount :: int

text \<open>An element of \<open>inputs\<close>: a dict with the keys \<open>"coin"\<close> and \<open>"pubkey"\<close>.\<close>

record 'pk tx_input =
  coin :: Coin
  pubkey :: 'pk

text \<open>
  An element of \<open>primaries\<close>: a dict with the keys \<open>"puzzlehash"\<close> and
  \<open>"amount"\<close> (line 96 builds it, line 51 reads it).
\<close>

record primary =
  p_puzzlehash :: bytes
  p_amount :: int

text \<open>
  \<open>CoinSolution\<close> and \<open>SpendBundle\<close> (src/types, not among the sources) are used as
  plain constructors: a coin with the program \<open>[puzzle, solution]\<close>, and the list of
  coin solutions with the aggregated signature.
\<close>

record 'prog CoinSolution =
  cs_coin :: Coin
  cs_solution :: 'prog

record ('prog, 'sig) SpendBundle =
  coin_solutions :: "'prog CoinSolution list"
  aggregated_signature :: 'sig

text \<open>
  The functions the module imports and whose code is not among the sources are
  parameters of the model, so every theorem holds for any implementation of them:
  the puzzle library (\<open>puzzle_for_pk\<close>, \<open>solution_for_conditions\<close>,
  \<open>Program.get_tree_hash\<close>, \<open>Program.to\<close> on a list), the decoders the parser calls
  on the values of a description (\<open>hexstr_to_bytes\<close>, \<open>G1Element.from_bytes\<close>,
  \<open>uint64\<close>, \<open>Program(binutils.assemble(..))\<close>), each of which may raise, and
  \<open>G2Element.infinity()\<close>.
\<close>

record ('pk, 'prog, 'sig) collaborators =
  puzzle_for_pk :: "'pk \<Rightarrow> 'prog"
  solution_for_conditions :: "condition list \<Rightarrow> 'prog"
  get_tree_hash :: "'prog \<Rightarrow> bytes"
  Program_to :: "'prog list \<Rightarrow> 'prog"
  hexstr_to_bytes :: "json \<Rightarrow> error + bytes"
  G1Element_from_bytes :: "bytes \<Rightarrow> error + 'pk"
  uint64 :: "json \<Rightarrow> error + int"
  assemble :: "json \<Rightarrow> error + 'prog"
  G2Element_infinity :: "'sig"

section \<open>make_solution (lines 45-63)\<close>

text \<open>
  \<open>condition_list\<close> is the local list of that name when line 63 is reached. The
  optional arguments default to \<open>None\<close>; \<open>if primaries:\<close>, \<open>if consumed:\<close> and
  \<open>if me:\<close> are false for \<open>None\<close> and for an empty list or dict. \<open>me\<close> is a dict
  read at the key \<open>"id"\<close>.
\<close>

definition condition_list ::
  "primary list option \<Rightarrow> int \<Rightarrow> (string \<times> bytes) list option \<Rightarrow> bytes list option \<Rightarrow> int
    \<Rightarrow> error + condition list"
where
  "condition_list primaries min_time me consumed fee =
     (if fee < 0 then Inl AssertionError
      else
        let c1 = (case primaries of
                    None \<Rightarrow> []
                  | Some ps \<Rightarrow> map (\<lambda>p. make_create_coin_condition (p_puzzlehash p) (p_amount p)) ps);
            c2 = c1 @ (case consumed of
                         None \<Rightarrow> []
                       | Some cs \<Rightarrow> map make_assert_coin_consumed_condition cs);
            c3 = c2 @ (if min_time > 0 then [make_assert_time_exceeds_condition min_time] else [])
        in case (case me of
                   None \<Rightarrow> Inr c3
                 | Some d \<Rightarrow>
                     if d = [] then Inr c3
                     else (case map_of d ''id'' of
                             None \<Rightarrow> Inl (KeyError ''id'')
                           | Some v \<Rightarrow> Inr (c3 @ [make_assert_my_coin_id_condition v])))
           of Inl e \<Rightarrow> Inl e
            | Inr c4 \<Rightarrow> Inr (c4 @ (if fee \<noteq> 0 then [make_assert_fee_condition fee] else [])))"

definition make_solution ::
  "('pk, 'prog, 'sig) collaborators \<Rightarrow> primary list option \<Rightarrow> int \<Rightarrow>
    (string \<times> bytes) list option \<Rightarrow> bytes list option \<Rightarrow> int \<Rightarrow> error + 'prog"
where
  "make_solution E primaries min_time me consumed fee =
     (case condition_list primaries min_time me consumed fee of
        Inl e \<Rightarrow> Inl e
      | Inr cl \<Rightarrow> Inr (solution_for_conditions E cl))"

text \<open>What the claims about \<open>make_solution\<close> speak of.\<close>

definition items :: "'a list option \<Rightarrow> 'a list" where
  "items xs = (case xs of None \<Rightarrow> [] | Some ys \<Rightarrow> ys)"

definition my_coin_id :: "(string \<times> bytes) list option \<Rightarrow> bytes option" where
  "my_coin_id me = (case me of None \<Rightarrow> None | Some d \<Rightarrow> map_of d ''id'')"

definition me_without_id :: "(string \<times> bytes) list option \<Rightarrow> bool" where
  "me_without_id me = (case me of None \<Rightarrow> False | Some d \<Rightarrow> d \<noteq> [] \<and> map_of d ''id'' = None)"

section \<open>create_unsigned_transaction (lines 75-124)\<close>

text \<open>
  The loop of lines 116-122 over the inputs that are left after the origin was popped.
  Each turn builds \<open>make_solution()\<close>, then reads \<open>coin.pubkey\<close> (line 120), then
  appends the coin solution to \<open>spends\<close>.
\<close>

fun spend_inputs ::
  "('pk, 'prog, 'sig) collaborators \<Rightarrow> 'pk tx_input list \<Rightarrow> 'prog CoinSolution list \<Rightarrow>
    error + 'prog CoinSolution list"
where
  "spend_inputs E [] spends = Inr spends"
| "spend_inputs E (i # inputs) spends =
     (case make_solution E None 0 None None 0 of
        Inl e \<Rightarrow> Inl e
      | Inr solution \<Rightarrow>
          (case Coin_pubkey (coin i) of
             Inl e \<Rightarrow> Inl e
           | Inr pk \<Rightarrow>
               spend_inputs E inputs
                 (spends @ [\<lparr>cs_coin = coin i,
                             cs_solution = Program_to E [puzzle_for_pk E pk, solution]\<rparr>])))"

text \<open>
  The call returns, first, the two lists of the caller as the call leaves them
  (\<open>inputs.pop()\<close> of line 89 removes the last element of the caller's list; nothing
  writes to \<open>spend_requests\<close>), and second the exception raised or the list returned.
  \<open>inputs\<close> and \<open>spend_requests\<close> default to \<open>None\<close>.
\<close>

definition create_unsigned_transaction ::
  "('pk, 'prog, 'sig) collaborators \<Rightarrow> 'pk tx_input list option \<Rightarrow> SpendRequest list option \<Rightarrow> bool \<Rightarrow>
    ('pk tx_input list option \<times> SpendRequest list option) \<times> (error + 'prog CoinSolution list)"
where
  "create_unsigned_transaction E inputs spend_requests validate =
     (case inputs of
        None \<Rightarrow> ((None, spend_requests), Inl ValueError_no_inputs)
      | Some xs \<Rightarrow>
          if length xs < 1 then ((Some xs, spend_requests), Inl ValueError_no_inputs)
          else
            let origin = last xs;
                rest = butlast xs;
                input_value = sum_list (map (\<lambda>i. amount (coin i)) rest) + amount (coin origin);
                sent_value = (case spend_requests of
                                None \<Rightarrow> 0
                              | Some rs \<Rightarrow> sum_list (map sr_amount rs));
                outputs = (case spend_requests of
                             None \<Rightarrow> []
                           | Some rs \<Rightarrow>
                               map (\<lambda>request. \<lparr>p_puzzlehash = sr_puzzle_hash request,
                                                p_amount = sr_amount request\<rparr>) rs)
            in ((Some rest, spend_requests),
                if validate \<and> sent_value \<ge> input_value
                then Inl (ValueError_outputs input_value sent_value)
                else
                  let origin_puzzle = puzzle_for_pk E (pubkey origin)
                  in if get_tree_hash E origin_puzzle \<noteq> puzzle_hash (coin origin)
                     then Inl AssertionError
                     else (case make_solution E (Some outputs) 0 None None 0 of
                             Inl e \<Rightarrow> Inl e
                           | Inr solution \<Rightarrow>
                               spend_inputs E rest
                                 [\<lparr>cs_coin = coin origin,
                                   cs_solution = Program_to E [origin_puzzle, solution]\<rparr>])))"



section \<open>encode_spendbundle and decode_spendbundle (lines 200-205)\<close>

text \<open>
  \<open>bytes.hex()\<close> writes each byte as two lower-case hexadecimal digits.
  \<open>bytes.fromhex\<close> skips ASCII whitespace before a byte, then reads two hexadecimal
  digits of either case, and raises \<open>ValueError\<close> on anything else.
\<close>

definition hexdigit :: "nat \<Rightarrow> char" where
  "hexdigit n = ''0123456789abcdef'' ! n"

definition hexval :: "char \<Rightarrow> nat option" where
  "hexval c =
     (let n = (of_char c :: nat)
      in if 48 \<le> n \<and> n \<le> 57 then Some (n - 48)
         else if 97 \<le> n \<and> n \<le> 102 then Some (n - 87)
         else if 65 \<le> n \<and> n \<le> 70 then Some (n - 55)
         else None)"

definition isspace :: "char \<Rightarrow> bool" where
  "isspace c = (let n = (of_char c :: nat) in n = 32 \<or> (9 \<le> n \<and> n \<le> 13))"

definition hex :: "bytes \<Rightarrow> string" where
  "hex bs = concat (map (\<lambda>b. [hexdigit (unat b div 16), hexdigit (unat b mod 16)]) bs)"

fun fromhex :: "string \<Rightarrow> error + bytes" where
  "fromhex [] = Inr []"
| "fromhex [c] = (if isspace c then Inr [] else Inl ValueError_fromhex)"
| "fromhex (c # d # cs) =
     (if isspace c then fromhex (d # cs)
      else (case (hexval c, hexval d) of
              (Some hi, Some lo) \<Rightarrow>
                (case fromhex cs of
                   Inl e \<Rightarrow> Inl e
                 | Inr bs \<Rightarrow> Inr (of_nat (16 * hi + lo) # bs))
            | _ \<Rightarrow> Inl ValueError_fromhex))"

text \<open>
  \<open>bytes(spend_bundle)\<close> and \<open>SpendBundle.from_bytes\<close> are the serialisation of
  src/types/spend_bundle.py, which is not among the sources: they are the parameters
  \<open>to_bytes\<close> and \<open>from_bytes\<close>, and either may raise.
\<close>

definition encode_spendbundle ::
  "(('prog, 'sig) SpendBundle \<Rightarrow> error + bytes) \<Rightarrow> ('prog, 'sig) SpendBundle \<Rightarrow> error + string"
where
  "encode_spendbundle to_bytes spend_bundle =
     (case to_bytes spend_bundle of Inl e \<Rightarrow> Inl e | Inr bs \<Rightarrow> Inr (hex bs))"

definition decode_spendbundle ::
  "(bytes \<Rightarrow> error + ('prog, 'sig) SpendBundle) \<Rightarrow> string \<Rightarrow> error + ('prog, 'sig) SpendBundle"
where
  "decode_spendbundle from_bytes spend_bundle_bytes =
     (case fromhex spend_bundle_bytes of Inl e \<Rightarrow> Inl e | Inr bs \<Rightarrow> from_bytes bs)"

section \<open>The wire format of a SpendBundle\<close>

text \<open>
  Modelled from the spec: \<open>bytes(spend_bundle)\<close> and \<open>SpendBundle.from_bytes\<close> of
  src/types/spend_bundle.py, which is not among the sources. The spec gives the
  format as the concatenation of the coin solutions, each the three fields of its
  coin (parent id of 32 bytes, puzzle hash of 32 bytes, amount of 64 bits) followed
  by the encoding of its program, followed by the aggregated signature of 96 bytes,
  with no padding. The amount is written most significant byte first (the spec fixes
  its width, not its order). The encoding of a program belongs to the puzzle
  library: writing it is the parameter \<open>ser\<close>, reading one program off the front of
  a byte sequence is the parameter \<open>parse\<close>. A bundle is valid when its fields have
  these widths. Reading stops at the 96 bytes of the signature; anything that does
  not split this way is refused.
\<close>

fun be_bytes :: "nat \<Rightarrow> int \<Rightarrow> bytes" where
  "be_bytes 0 n = []"
| "be_bytes (Suc k) n = be_bytes k (n div 256) @ [of_int n]"

definition be_int :: "bytes \<Rightarrow> int" where
  "be_int bs = foldl (\<lambda>a b. a * 256 + uint b) 0 bs"

definition valid_coin :: "Coin \<Rightarrow> bool" where
  "valid_coin c =
     (length (parent_coin_info c) = 32 \<and> length (puzzle_hash c) = 32
      \<and> 0 \<le> amount c \<and> amount c < 2 ^ 64)"

definition valid_bundle :: "('prog, bytes) SpendBundle \<Rightarrow> bool" where
  "valid_bundle sb =
     (list_all (\<lambda>cs. valid_coin (cs_coin cs)) (coin_solutions sb)
      \<and> length (aggregated_signature sb) = 96)"

definition coin_bytes :: "Coin \<Rightarrow> bytes" where
  "coin_bytes c = parent_coin_info c @ puzzle_hash c @ be_bytes 8 (amount c)"

definition coin_solution_bytes :: "('prog \<Rightarrow> bytes) \<Rightarrow> 'prog CoinSolution \<Rightarrow> bytes" where
  "coin_solution_bytes ser cs = coin_bytes (cs_coin cs) @ ser (cs_solution cs)"

definition SpendBundle_bytes ::
  "('prog \<Rightarrow> bytes) \<Rightarrow> ('prog, bytes) SpendBundle \<Rightarrow> error + bytes"
where
  "SpendBundle_bytes ser sb =
     (if valid_bundle sb
      then Inr (concat (map (coin_solution_bytes ser) (coin_solutions sb)) @ aggregated_signature sb)
      else Inl (CollaboratorError ''SpendBundle''))"

function coin_solutions_from_bytes ::
  "(bytes \<Rightarrow> ('prog \<times> bytes) option) \<Rightarrow> bytes \<Rightarrow> error + ('prog CoinSolution list \<times> bytes)"
where
  "coin_solutions_from_bytes parse bs =
     (if length bs = 96 then Inr ([], bs)
      else if length bs < 72 + 96 then Inl (CollaboratorError ''SpendBundle'')
      else (case parse (drop 72 bs) of
              None \<Rightarrow> Inl (CollaboratorError ''SpendBundle'')
            | Some (p, rest) \<Rightarrow>
                if length rest < length bs
                then (case coin_solutions_from_bytes parse rest of
                        Inl e \<Rightarrow> Inl e
                      | Inr (css, sig) \<Rightarrow>
                          Inr (\<lparr>cs_coin = \<lparr>parent_coin_info = take 32 bs,
                                            puzzle_hash = take 32 (drop 32 bs),
                                            amount = be_int (take 8 (drop 64 bs))\<rparr>,
                                cs_solution = p\<rparr> # css, sig))
                else Inl (CollaboratorError ''SpendBundle'')))"
  by pat_completeness auto
termination
  by (relation "measure (\<lambda>(parse, bs). length bs)") auto

definition SpendBundle_from_bytes ::
  "(bytes \<Rightarrow> ('prog \<times> bytes) option) \<Rightarrow> bytes \<Rightarrow> error + ('prog, bytes) SpendBundle"
where
  "SpendBundle_from_bytes parse bs =
     (case coin_solutions_from_bytes parse bs of
        Inl e \<Rightarrow> Inl e
      | Inr (css, sig) \<Rightarrow> Inr \<lparr>coin_solutions = css, aggregated_signature = sig\<rparr>)"

section \<open>create_unsigned_tx_from_json (lines 127-165)\<close>

text \<open>
  The model starts from \<open>j\<close>, the value \<open>json.loads(json_tx)\<close> returns at line 128 (a
  text the decoder rejects raises there, before anything else is done). On such a
  value, \<open>x[k]\<close> with a string \<open>k\<close> looks a dict up and raises \<open>KeyError\<close> for a
  key that is missing, and raises \<open>TypeError\<close> on anything but a dict; \<open>k in x\<close> is
  key membership on a dict, element membership on a list, the substring test on a
  string and \<open>TypeError\<close> otherwise; \<open>for .. in x\<close> runs through a list, through the
  keys of a dict (the association list holds each key once) or through the characters
  of a string, and raises \<open>TypeError\<close> otherwise.
\<close>

definition and_then :: "error + 'a \<Rightarrow> ('a \<Rightarrow> error + 'b) \<Rightarrow> error + 'b" where
  "and_then r f = (case r of Inl e \<Rightarrow> Inl e | Inr v \<Rightarrow> f v)"

definition getitem :: "json \<Rightarrow> string \<Rightarrow> error + json" where
  "getitem x k =
     (case x of
        JObj d \<Rightarrow> (case map_of d k of None \<Rightarrow> Inl (KeyError k) | Some v \<Rightarrow> Inr v)
      | _ \<Rightarrow> Inl TypeError)"

fun startswith :: "string \<Rightarrow> string \<Rightarrow> bool" where
  "startswith [] s = True"
| "startswith (c # cs) [] = False"
| "startswith (c # cs) (d # ds) = (c = d \<and> startswith cs ds)"

fun substring :: "string \<Rightarrow> string \<Rightarrow> bool" where
  "substring k [] = (k = [])"
| "substring k (c # cs) = (startswith k (c # cs) \<or> substring k cs)"

definition contains :: "string \<Rightarrow> json \<Rightarrow> error + bool" where
  "contains k x =
     (case x of
        JObj d \<Rightarrow> Inr (map_of d k \<noteq> None)
      | JList xs \<Rightarrow> Inr (JStr k \<in> set xs)
      | JStr s \<Rightarrow> Inr (substring k s)
      | _ \<Rightarrow> Inl TypeError)"

definition iterate :: "json \<Rightarrow> error + json list" where
  "iterate x =
     (case x of
        JList xs \<Rightarrow> Inr xs
      | JObj d \<Rightarrow> Inr (map (\<lambda>kv. JStr (fst kv)) d)
      | JStr s \<Rightarrow> Inr (map (\<lambda>c. JStr [c]) s)
      | _ \<Rightarrow> Inl TypeError)"

text \<open>A list comprehension: the elements in order, the first exception ends it.\<close>

fun map_err :: "('a \<Rightarrow> error + 'b) \<Rightarrow> 'a list \<Rightarrow> error + 'b list" where
  "map_err f [] = Inr []"
| "map_err f (x # xs) =
     (case f x of
        Inl e \<Rightarrow> Inl e
      | Inr y \<Rightarrow> (case map_err f xs of Inl e \<Rightarrow> Inl e | Inr ys \<Rightarrow> Inr (y # ys)))"

text \<open>
  One element of the comprehension of lines 134-144, in the order Python evaluates
  it. Line 139 hands the amount of the description to \<open>Coin\<close> as it is, so it is kept
  as a JSON value here.
\<close>

definition input_coin_of ::
  "('pk, 'prog, 'sig) collaborators \<Rightarrow> json \<Rightarrow> error + (bytes \<times> bytes \<times> json \<times> 'pk)"
where
  "input_coin_of E i =
     and_then (getitem i ''coin'') (\<lambda>c1.
     and_then (getitem c1 ''parent_id'') (\<lambda>p.
     and_then (hexstr_to_bytes E p) (\<lambda>parent.
     and_then (getitem i ''coin'') (\<lambda>c2.
     and_then (getitem c2 ''puzzle_hash'') (\<lambda>h.
     and_then (hexstr_to_bytes E h) (\<lambda>ph.
     and_then (getitem i ''coin'') (\<lambda>c3.
     and_then (getitem c3 ''amount'') (\<lambda>a.
     and_then (getitem i ''pubkey'') (\<lambda>k.
     and_then (hexstr_to_bytes E k) (\<lambda>kb.
     and_then (G1Element_from_bytes E kb) (\<lambda>pk.
       Inr (parent, ph, a, pk))))))))))))"

text \<open>One element of the comprehension of lines 145-148.\<close>

definition spend_request_of ::
  "('pk, 'prog, 'sig) collaborators \<Rightarrow> json \<Rightarrow> error + (bytes \<times> json)"
where
  "spend_request_of E s =
     and_then (getitem s ''puzzle_hash'') (\<lambda>h.
     and_then (hexstr_to_bytes E h) (\<lambda>ph.
     and_then (getitem s ''amount'') (\<lambda>a.
       Inr (ph, a))))"

text \<open>
  The amounts of the descriptive form are first used by the sums of lines 91 and 94,
  where Python adds them to \<open>0\<close>: an integer is itself, \<open>true\<close> and \<open>false\<close> are 1
  and 0, and every other JSON value raises \<open>TypeError\<close>.
\<close>

definition summand :: "json \<Rightarrow> error + int" where
  "summand a =
     (case a of
        JInt n \<Rightarrow> Inr n
      | JBool b \<Rightarrow> Inr (if b then 1 else 0)
      | _ \<Rightarrow> Inl TypeError)"

definition typed_input :: "bytes \<times> bytes \<times> json \<times> 'pk \<Rightarrow> error + 'pk tx_input" where
  "typed_input r =
     (case r of (parent, ph, a, pk) \<Rightarrow>
        and_then (summand a) (\<lambda>n.
          Inr \<lparr>coin = \<lparr>parent_coin_info = parent, puzzle_hash = ph, amount = n\<rparr>, pubkey = pk\<rparr>))"

definition typed_request :: "bytes \<times> json \<Rightarrow> error + SpendRequest" where
  "typed_request r =
     (case r of (ph, a) \<Rightarrow>
        and_then (summand a) (\<lambda>n. Inr \<lparr>sr_puzzle_hash = ph, sr_amount = n\<rparr>))"

text \<open>
  The branch of lines 132-150: the two comprehensions (\<open>descriptive_arguments\<close>),
  then the call of line 150. The call checks for an empty list of inputs (line 84)
  before it adds any amount, the amounts of the inputs (line 91) before those of the
  requests (line 94); \<open>validate\<close> has its default \<open>True\<close>. The list \<open>input_coins\<close>
  that the call pops from is not used again.
\<close>

definition descriptive_arguments ::
  "('pk, 'prog, 'sig) collaborators \<Rightarrow> json \<Rightarrow>
    error + ((bytes \<times> bytes \<times> json \<times> 'pk) list \<times> (bytes \<times> json) list)"
where
  "descriptive_arguments E s =
     and_then (getitem s ''input_coins'') (\<lambda>input_coins_json.
     and_then (getitem s ''spend_requests'') (\<lambda>spend_requests_json.
     and_then (iterate input_coins_json) (\<lambda>ics.
     and_then (map_err (input_coin_of E) ics) (\<lambda>raw_inputs.
     and_then (iterate spend_requests_json) (\<lambda>rs.
     and_then (map_err (spend_request_of E) rs) (\<lambda>raw_requests.
       Inr (raw_inputs, raw_requests)))))))"

definition descriptive_spends ::
  "('pk, 'prog, 'sig) collaborators \<Rightarrow> json \<Rightarrow> error + 'prog CoinSolution list"
where
  "descriptive_spends E s =
     and_then (descriptive_arguments E s) (\<lambda>arguments.
       case arguments of (raw_inputs, raw_requests) \<Rightarrow>
         if raw_inputs = [] then Inl ValueError_no_inputs
         else
           and_then (map_err typed_input raw_inputs) (\<lambda>input_coins.
           and_then (map_err typed_request raw_requests) (\<lambda>spend_requests.
             snd (create_unsigned_transaction E (Some input_coins) (Some spend_requests) True))))"

text \<open>The branch of lines 152-162.\<close>

definition raw_spend ::
  "('pk, 'prog, 'sig) collaborators \<Rightarrow> json \<Rightarrow> error + 'prog CoinSolution"
where
  "raw_spend E s =
     and_then (getitem s ''input_coin'') (\<lambda>c1.
     and_then (getitem c1 ''parent_id'') (\<lambda>p.
     and_then (hexstr_to_bytes E p) (\<lambda>parent.
     and_then (getitem s ''input_coin'') (\<lambda>c2.
     and_then (getitem c2 ''puzzle_hash'') (\<lambda>h.
     and_then (hexstr_to_bytes E h) (\<lambda>ph.
     and_then (getitem s ''input_coin'') (\<lambda>c3.
     and_then (getitem c3 ''amount'') (\<lambda>a.
     and_then (uint64 E a) (\<lambda>n.
     and_then (getitem s ''puzzle_reveal'') (\<lambda>pr.
     and_then (assemble E pr) (\<lambda>puzzle_reveal.
       if get_tree_hash E puzzle_reveal \<noteq> ph then Inl AssertionError
       else
         and_then (getitem s ''solution'') (\<lambda>sj.
         and_then (assemble E sj) (\<lambda>solution.
           Inr \<lparr>cs_coin = \<lparr>parent_coin_info = parent, puzzle_hash = ph, amount = n\<rparr>,
                cs_solution = Program_to E [puzzle_reveal, solution]\<rparr>)))))))))))))"

text \<open>
  One turn of the loop of line 130: what the entry \<open>s\<close> adds to \<open>spends\<close>. An entry
  that passes neither test adds nothing (the \<open>if\<close>/\<open>elif\<close> has no \<open>else\<close>).
\<close>

definition entry_spends ::
  "('pk, 'prog, 'sig) collaborators \<Rightarrow> json \<Rightarrow> error + 'prog CoinSolution list"
where
  "entry_spends E s =
     and_then (contains ''spend_requests'' s) (\<lambda>descriptive.
       if descriptive then descriptive_spends E s
       else
         and_then (contains ''solution'' s) (\<lambda>raw.
           if raw then and_then (raw_spend E s) (\<lambda>c. Inr [c])
           else Inr []))"

fun spends_of_entries ::
  "('pk, 'prog, 'sig) collaborators \<Rightarrow> json list \<Rightarrow> 'prog CoinSolution list \<Rightarrow>
    error + 'prog CoinSolution list"
where
  "spends_of_entries E [] spends = Inr spends"
| "spends_of_entries E (s # ss) spends =
     (case entry_spends E s of
        Inl e \<Rightarrow> Inl e
      | Inr new \<Rightarrow> spends_of_entries E ss (spends @ new))"

definition create_unsigned_tx_from_json ::
  "('pk, 'prog, 'sig) collaborators \<Rightarrow> json \<Rightarrow> error + ('prog, 'sig) SpendBundle"
where
  "create_unsigned_tx_from_json E j =
     and_then (getitem j ''spends'') (\<lambda>sp.
     and_then (iterate sp) (\<lambda>entries.
     and_then (spends_of_entries E entries []) (\<lambda>spends.
       Inr \<lparr>coin_solutions = spends, aggregated_signature = G2Element_infinity E\<rparr>)))"

section \<open>A sample implementation of the collaborators\<close>

text \<open>
  The concrete examples below run the model on these stand-ins: programs are terms
  that record how they were built, and the tree hash of a puzzle is a tag followed
  by what identifies it.
\<close>

datatype sample_program =
    Puzzle bytes
  | Solution "condition list"
  | ProgramList "sample_program list"
  | Source string

definition sample_tree_hash :: "sample_program \<Rightarrow> bytes" where
  "sample_tree_hash p =
     (case p of
        Puzzle pk \<Rightarrow> 0x50 # pk
      | Source s \<Rightarrow> [0x53, of_nat (length s)]
      | Solution cl \<Rightarrow> [0x43]
      | ProgramList ps \<Rightarrow> [0x4c])"

definition sample_hexstr_to_bytes :: "json \<Rightarrow> error + bytes" where
  "sample_hexstr_to_bytes x = (case x of JStr s \<Rightarrow> fromhex s | _ \<Rightarrow> Inl TypeError)"

definition sample_uint64 :: "json \<Rightarrow> error + int" where
  "sample_uint64 x =
     (case x of
        JInt n \<Rightarrow> if 0 \<le> n \<and> n < 2 ^ 64 then Inr n else Inl (CollaboratorError ''uint64'')
      | _ \<Rightarrow> Inl TypeError)"

definition sample_assemble :: "json \<Rightarrow> error + sample_program" where
  "sample_assemble x = (case x of JStr s \<Rightarrow> Inr (Source s) | _ \<Rightarrow> Inl TypeError)"

definition sample_from_bytes :: "bytes \<Rightarrow> error + bytes" where
  "sample_from_bytes bs = (if bs = [] then Inl (CollaboratorError ''G1Element'') else Inr bs)"

definition sample :: "(bytes, sample_program, bytes) collaborators" where
  "sample =
     \<lparr>puzzle_for_pk = Puzzle,
      solution_for_conditions = Solution,
      get_tree_hash = sample_tree_hash,
      Program_to = ProgramList,
      hexstr_to_bytes = sample_hexstr_to_bytes,
      G1Element_from_bytes = sample_from_bytes,
      uint64 = sample_uint64,
      assemble = sample_assemble,
      G2Element_infinity = 0xc0 # replicate 95 0\<rparr>"

text \<open>
  The inputs of the spec's end-to-end example: two coins of 100 and 50 whose puzzle
  hashes are those of the puzzles of their keys, and one output of 30.
\<close>

definition input0 :: "bytes tx_input" where
  "input0 = \<lparr>coin = \<lparr>parent_coin_info = [0x00], puzzle_hash = [0x50, 0x0a], amount = 100\<rparr>,
             pubkey = [0x0a]\<rparr>"

definition input1 :: "bytes tx_input" where
  "input1 = \<lparr>coin = \<lparr>parent_coin_info = [0x01], puzzle_hash = [0x50, 0x0b], amount = 50\<rparr>,
             pubkey = [0x0b]\<rparr>"

definition output30 :: SpendRequest where
  "output30 = \<lparr>sr_puzzle_hash = [0x02], sr_amount = 30\<rparr>"

definition input0_other_hash :: "bytes tx_input" where
  "input0_other_hash =
     \<lparr>coin = \<lparr>parent_coin_info = [0x00], puzzle_hash = [0xff], amount = 100\<rparr>, pubkey = [0x0a]\<rparr>"


text \<open>
  A sample encoding of programs (here byte sequences shorter than 256): the length
  in one byte, then the bytes. And a bundle of two coin solutions.
\<close>

definition sample_program_bytes :: "bytes \<Rightarrow> bytes" where
  "sample_program_bytes p = of_nat (length p) # p"

definition sample_program_from_bytes :: "bytes \<Rightarrow> (bytes \<times> bytes) option" where
  "sample_program_from_bytes bs =
     (case bs of
        [] \<Rightarrow> None
      | n # rest \<Rightarrow>
          if unat n \<le> length rest then Some (take (unat n) rest, drop (unat n) rest) else None)"

definition sample_bundle :: "(bytes, bytes) SpendBundle" where
  "sample_bundle =
     \<lparr>coin_solutions =
        [\<lparr>cs_coin = \<lparr>parent_coin_info = replicate 32 0x11, puzzle_hash = replicate 32 0x22,
                     amount = 50\<rparr>,
          cs_solution = [0x01, 0x02]\<rparr>,
         \<lparr>cs_coin = \<lparr>parent_coin_info = replicate 32 0x33, puzzle_hash = replicate 32 0x44,
                     amount = 100\<rparr>,
          cs_solution = []\<rparr>],
      aggregated_signature = 0xc0 # replicate 95 0\<rparr>"

text \<open>Entries of a description.\<close>

definition descriptive_entry :: json where
  "descriptive_entry =
     JObj [(''input_coins'',
            JList [JObj [(''coin'', JObj [(''parent_id'', JStr ''01''),
                                          (''puzzle_hash'', JStr ''500b''),
                                          (''amount'', JInt 50)]),
                         (''pubkey'', JStr ''0b'')]]),
           (''spend_requests'',
            JList [JObj [(''puzzle_hash'', JStr ''02''), (''amount'', JInt 30)]])]"

definition raw_entry :: json where
  "raw_entry =
     JObj [(''input_coin'', JObj [(''parent_id'', JStr ''07''),
                                  (''puzzle_hash'', JStr ''5305''),
                                  (''amount'', JInt 5)]),
           (''puzzle_reveal'', JStr ''(q 1)''),
           (''solution'', JStr ''()'')]"

definition raw_entry_without_solution :: json where
  "raw_entry_without_solution =
     JObj [(''input_coin'', JObj [(''parent_id'', JStr ''07''),
                                  (''puzzle_hash'', JStr ''5305''),
                                  (''amount'', JInt 5)]),
           (''puzzle_reveal'', JStr ''(q 1)'')]"

definition descriptive_entry_500 :: json where
  "descriptive_entry_500 =
     JObj [(''input_coins'',
            JList [JObj [(''coin'', JObj [(''parent_id'', JStr ''00''),
                                          (''puzzle_hash'', JStr ''500a''),
                                          (''amount'', JInt 100)]),
                         (''pubkey'', JStr ''0a'')],
                   JObj [(''coin'', JObj [(''parent_id'', JStr ''01''),
                                          (''puzzle_hash'', JStr ''500b''),
                                          (''amount'', JInt 50)]),
                         (''pubkey'', JStr ''0b'')]]),
           (''spend_requests'',
            JList [JObj [(''puzzle_hash'', JStr ''02''), (''amount'', JInt 500)]])]"

definition raw_entry_other_hash :: json where
  "raw_entry_other_hash =
     JObj [(''input_coin'', JObj [(''parent_id'', JStr ''07''),
                                  (''puzzle_hash'', JStr ''ffff''),
                                  (''amount'', JInt 5)]),
           (''puzzle_reveal'', JStr ''(q 1)''),
           (''solution'', JStr ''()'')]"

definition entry_without_pubkey :: json where
  "entry_without_pubkey =
     JObj [(''input_coins'',
            JList [JObj [(''coin'', JObj [(''parent_id'', JStr ''01''),
                                          (''puzzle_hash'', JStr ''500b''),
                                          (''amount'', JInt 50)])]]),
           (''spend_requests'',
            JList [JObj [(''puzzle_hash'', JStr ''02''), (''amount'', JInt 30)]])]"

definition raw_coin_solution :: "sample_program CoinSolution" where
  "raw_coin_solution =
     \<lparr>cs_coin = \<lparr>parent_coin_info = [0x07], puzzle_hash = [0x53, 0x05], amount = 5\<rparr>,
      cs_solution = ProgramList [Source ''(q 1)'', Source ''()'']\<rparr>"

definition origin_coin_solution :: "sample_program CoinSolution" where
  "origin_coin_solution =
     \<lparr>cs_coin = coin input1,
      cs_solution = ProgramList [Puzzle [0x0b], Solution [CreateCoin [0x02] 30]]\<rparr>"

section \<open>What the claims about the parser speak of\<close>

text \<open>The value of a key of a dict of the description, if the dict has it.\<close>

definition field :: "json \<Rightarrow> string \<Rightarrow> json option" where
  "field x k = (case x of JObj d \<Rightarrow> map_of d k | _ \<Rightarrow> None)"

text \<open>An entry with neither a \<open>"spend_requests"\<close> key nor a \<open>"solution"\<close> key.\<close>

definition neither_form :: "json \<Rightarrow> bool" where
  "neither_form s =
     (case s of
        JObj d \<Rightarrow> map_of d ''spend_requests'' = None \<and> map_of d ''solution'' = None
      | _ \<Rightarrow> False)"

text \<open>
  The fields each form requires: of a coin, its parent id, puzzle hash and amount; of
  an input of the descriptive form, its coin and its public key; of a spend request,
  its puzzle hash and amount; of a descriptive entry, its input coins and spend
  requests, each complete; of a raw entry, its coin, puzzle reveal and solution. An
  entry is judged by the form the tests of lines 131 and 151 give it; an entry of
  neither form requires nothing.
\<close>

definition coin_fields :: "json \<Rightarrow> bool" where
  "coin_fields c =
     (field c ''parent_id'' \<noteq> None \<and> field c ''puzzle_hash'' \<noteq> None \<and> field c ''amount'' \<noteq> None)"

definition input_fields :: "json \<Rightarrow> bool" where
  "input_fields i =
     ((case field i ''coin'' of None \<Rightarrow> False | Some c \<Rightarrow> coin_fields c)
      \<and> field i ''pubkey'' \<noteq> None)"

definition request_fields :: "json \<Rightarrow> bool" where
  "request_fields r = (field r ''puzzle_hash'' \<noteq> None \<and> field r ''amount'' \<noteq> None)"

definition elements :: "json \<Rightarrow> json list" where
  "elements x = (case iterate x of Inl e \<Rightarrow> [] | Inr xs \<Rightarrow> xs)"

definition descriptive_fields :: "json \<Rightarrow> bool" where
  "descriptive_fields s =
     (case field s ''input_coins'' of
        None \<Rightarrow> False
      | Some ic \<Rightarrow>
          (case field s ''spend_requests'' of
             None \<Rightarrow> False
           | Some sr \<Rightarrow>
               list_all input_fields (elements ic) \<and> list_all request_fields (elements sr)))"

definition raw_fields :: "json \<Rightarrow> bool" where
  "raw_fields s =
     ((case field s ''input_coin'' of None \<Rightarrow> False | Some c \<Rightarrow> coin_fields c)
      \<and> field s ''puzzle_reveal'' \<noteq> None \<and> field s ''solution'' \<noteq> None)"

definition required_fields :: "json \<Rightarrow> bool" where
  "required_fields s =
     (if contains ''spend_requests'' s = Inr True then descriptive_fields s
      else if contains ''solution'' s = Inr True then raw_fields s
      else True)"

text \<open>
  A required field \<open>k\<close> that is the first thing wrong with an entry: the dict that
  should hold \<open>k\<close> lacks it, and every value the code reads before it looks \<open>k\<close> up
  is there and is decoded. The order is that of lines 132-148 (descriptive form: the
  input coins one by one, each its coin's parent id, puzzle hash and amount, then its
  public key; then the spend requests one by one, each its puzzle hash, then its
  amount) and of lines 152-157 (raw form: the coin's parent id, puzzle hash and
  amount, then the puzzle reveal).
\<close>

definition lacks :: "json \<Rightarrow> string \<Rightarrow> bool" where
  "lacks x k = (case x of JObj d \<Rightarrow> map_of d k = None | _ \<Rightarrow> False)"

definition decoded :: "(json \<Rightarrow> error + 'a) \<Rightarrow> json \<Rightarrow> string \<Rightarrow> bool" where
  "decoded f x k =
     (case field x k of
        None \<Rightarrow> False
      | Some v \<Rightarrow> (case f v of Inl e \<Rightarrow> False | Inr y \<Rightarrow> True))"

definition coin_lacks :: "('pk, 'prog, 'sig) collaborators \<Rightarrow> json \<Rightarrow> string \<Rightarrow> bool" where
  "coin_lacks E c k =
     ((k = ''parent_id'' \<and> lacks c ''parent_id'')
      \<or> (k = ''puzzle_hash'' \<and> decoded (hexstr_to_bytes E) c ''parent_id''
           \<and> lacks c ''puzzle_hash'')
      \<or> (k = ''amount'' \<and> decoded (hexstr_to_bytes E) c ''parent_id''
           \<and> decoded (hexstr_to_bytes E) c ''puzzle_hash'' \<and> lacks c ''amount''))"

definition input_lacks :: "('pk, 'prog, 'sig) collaborators \<Rightarrow> json \<Rightarrow> string \<Rightarrow> bool" where
  "input_lacks E i k =
     ((k = ''coin'' \<and> lacks i ''coin'')
      \<or> (case field i ''coin'' of
            None \<Rightarrow> False
          | Some c \<Rightarrow>
              coin_lacks E c k
              \<or> (k = ''pubkey'' \<and> decoded (hexstr_to_bytes E) c ''parent_id''
                   \<and> decoded (hexstr_to_bytes E) c ''puzzle_hash''
                   \<and> field c ''amount'' \<noteq> None \<and> lacks i ''pubkey'')))"

definition request_lacks :: "('pk, 'prog, 'sig) collaborators \<Rightarrow> json \<Rightarrow> string \<Rightarrow> bool" where
  "request_lacks E r k =
     ((k = ''puzzle_hash'' \<and> lacks r ''puzzle_hash'')
      \<or> (k = ''amount'' \<and> decoded (hexstr_to_bytes E) r ''puzzle_hash'' \<and> lacks r ''amount''))"

definition descriptive_lacks :: "('pk, 'prog, 'sig) collaborators \<Rightarrow> json \<Rightarrow> string \<Rightarrow> bool" where
  "descriptive_lacks E s k =
     ((k = ''input_coins'' \<and> lacks s ''input_coins'')
      \<or> (case field s ''input_coins'' of
            None \<Rightarrow> False
          | Some ic \<Rightarrow>
              (case field s ''spend_requests'' of
                 None \<Rightarrow> False
               | Some sr \<Rightarrow>
                   (case iterate ic of
                      Inl e \<Rightarrow> False
                    | Inr ics \<Rightarrow>
                        (case find (\<lambda>i. isl (input_coin_of E i)) ics of
                           Some i \<Rightarrow> input_lacks E i k
                         | None \<Rightarrow>
                             (case iterate sr of
                                Inl e \<Rightarrow> False
                              | Inr rs \<Rightarrow>
                                  (case find (\<lambda>r. isl (spend_request_of E r)) rs of
                                     Some r \<Rightarrow> request_lacks E r k
                                   | None \<Rightarrow> False)))))))"

definition raw_lacks :: "('pk, 'prog, 'sig) collaborators \<Rightarrow> json \<Rightarrow> string \<Rightarrow> bool" where
  "raw_lacks E s k =
     ((k = ''input_coin'' \<and> lacks s ''input_coin'')
      \<or> (case field s ''input_coin'' of
            None \<Rightarrow> False
          | Some c \<Rightarrow>
              coin_lacks E c k
              \<or> (k = ''puzzle_reveal'' \<and> decoded (hexstr_to_bytes E) c ''parent_id''
                   \<and> decoded (hexstr_to_bytes E) c ''puzzle_hash''
                   \<and> decoded (uint64 E) c ''amount'' \<and> lacks s ''puzzle_reveal'')))"

definition entry_lacks :: "('pk, 'prog, 'sig) collaborators \<Rightarrow> json \<Rightarrow> string \<Rightarrow> bool" where
  "entry_lacks E s k =
     (if contains ''spend_requests'' s = Inr True then descriptive_lacks E s k
      else contains ''spend_requests'' s = Inr False \<and> contains ''solution'' s = Inr True
           \<and> raw_lacks E s k)"

section \<open>Properties of make_solution\<close>

lemmas sample_values =
  sample_def sample_tree_hash_def input0_def input1_def output30_def input0_other_hash_def items_def

lemma make_solution_no_arguments:
  "make_solution E None 0 None None 0 = Inr (solution_for_conditions E [])"
  by (simp add: make_solution_def condition_list_def)

lemma make_solution_outputs:
  "make_solution E (Some ps) 0 None None 0 =
     Inr (solution_for_conditions E (map (\<lambda>p. CreateCoin (p_puzzlehash p) (p_amount p)) ps))"
  by (simp add: make_solution_def condition_list_def make_create_coin_condition_def)

text \<open>
  C6. With a fee that is not negative, \<open>make_solution\<close> raises only for a non-empty
  \<open>me\<close> that has no \<open>"id"\<close>; otherwise the condition list it wraps is: one
  \<open>CreateCoin\<close> per primary in the order of the primaries, then one
  \<open>AssertCoinConsumed\<close> per element of \<open>consumed\<close> in order, then
  \<open>AssertTimeExceeds\<close> exactly when \<open>min_time > 0\<close>, then \<open>AssertMyCoinId\<close> exactly
  when \<open>me\<close> gives an id, then \<open>AssertFee\<close> exactly when the fee is not zero.
\<close>

theorem make_solution_conditions:
  assumes "0 \<le> fee"
  shows "condition_list primaries min_time me consumed fee =
           (if me_without_id me then Inl (KeyError ''id'')
            else Inr (map (\<lambda>p. CreateCoin (p_puzzlehash p) (p_amount p)) (items primaries)
                      @ map AssertCoinConsumed (items consumed)
                      @ (if 0 < min_time then [AssertTimeExceeds min_time] else [])
                      @ (case my_coin_id me of None \<Rightarrow> [] | Some v \<Rightarrow> [AssertMyCoinId v])
                      @ (if fee = 0 then [] else [AssertFee fee])))
         \<and> make_solution E primaries min_time me consumed fee =
           (case condition_list primaries min_time me consumed fee of
              Inl e \<Rightarrow> Inl e
            | Inr cl \<Rightarrow> Inr (solution_for_conditions E cl))"
  using assms
  by (auto simp: condition_list_def make_solution_def me_without_id_def my_coin_id_def items_def
      make_create_coin_condition_def make_assert_coin_consumed_condition_def
      make_assert_time_exceeds_condition_def make_assert_my_coin_id_condition_def
      make_assert_fee_condition_def Let_def split: option.splits)

theorem make_solution_conditions_witness:
  "(0::int) \<le> 3 \<and>
   condition_list
       (Some [\<lparr>p_puzzlehash = [1], p_amount = 30\<rparr>, \<lparr>p_puzzlehash = [2], p_amount = 7\<rparr>]) 5
       (Some [(''id'', [9])]) (Some [[4], [5]]) 3
     = Inr [CreateCoin [1] 30, CreateCoin [2] 7, AssertCoinConsumed [4], AssertCoinConsumed [5],
            AssertTimeExceeds 5, AssertMyCoinId [9], AssertFee 3] \<and>
   make_solution sample
       (Some [\<lparr>p_puzzlehash = [1], p_amount = 30\<rparr>, \<lparr>p_puzzlehash = [2], p_amount = 7\<rparr>]) 5
       (Some [(''id'', [9])]) (Some [[4], [5]]) 3
     = Inr (Solution [CreateCoin [1] 30, CreateCoin [2] 7, AssertCoinConsumed [4],
            AssertCoinConsumed [5], AssertTimeExceeds 5, AssertMyCoinId [9], AssertFee 3])"
  using make_solution_conditions [of 3
       "Some [\<lparr>p_puzzlehash = [1], p_amount = 30\<rparr>, \<lparr>p_puzzlehash = [2], p_amount = 7\<rparr>]" 5
       "Some [(''id'', [9])]" "Some [[4], [5]]" sample]
  by (simp add: me_without_id_def my_coin_id_def items_def sample_def)

section \<open>Properties of create_unsigned_transaction\<close>

lemma spend_inputs_cases:
  "spend_inputs E xs acc = (if xs = [] then Inr acc else Inl (AttributeError ''pubkey''))"
  by (cases xs) (simp_all add: make_solution_no_arguments Coin_pubkey_def)

lemma sum_butlast_last:
  "xs \<noteq> [] \<Longrightarrow> sum_list (map f (butlast xs)) + f (last xs) = (sum_list (map f xs) :: int)"
  by (induction xs) auto

text \<open>What a call with at least one input returns or raises, case by case.\<close>

lemma create_unsigned_transaction_result:
  assumes "inputs \<noteq> []"
  shows "snd (create_unsigned_transaction E (Some inputs) spend_requests validate) =
    (let input_value = sum_list (map (\<lambda>i. amount (coin i)) inputs);
         sent_value = sum_list (map sr_amount (items spend_requests))
     in if validate \<and> sent_value \<ge> input_value then Inl (ValueError_outputs input_value sent_value)
        else if get_tree_hash E (puzzle_for_pk E (pubkey (last inputs))) \<noteq> puzzle_hash (coin (last inputs))
        then Inl AssertionError
        else if butlast inputs \<noteq> [] then Inl (AttributeError ''pubkey'')
        else Inr [\<lparr>cs_coin = coin (last inputs),
                   cs_solution = Program_to E [puzzle_for_pk E (pubkey (last inputs)),
                     solution_for_conditions E
                       (map (\<lambda>r. CreateCoin (sr_puzzle_hash r) (sr_amount r)) (items spend_requests))]\<rparr>])"
proof -
  have s: "sum_list (map (\<lambda>i. amount (coin i)) (butlast inputs)) + amount (coin (last inputs))
        = sum_list (map (\<lambda>i. amount (coin i)) inputs)"
    using assms by (rule sum_butlast_last)
  show ?thesis
    using assms
    by (cases spend_requests)
       (simp_all add: create_unsigned_transaction_def Let_def s items_def make_solution_outputs
         spend_inputs_cases comp_def)
qed

text \<open>
  The part of C1 that holds: with \<open>validate\<close> and at least one input, the call raises
  the \<open>ValueError\<close> of lines 98-102 exactly when the outputs sum to at least the
  inputs, equality included; and a call with one input whose puzzle hash matches
  succeeds otherwise.
\<close>

lemma insufficient_funds_iff:
  assumes "inputs \<noteq> []"
  shows "(\<exists>a b. snd (create_unsigned_transaction E (Some inputs) spend_requests True)
                  = Inl (ValueError_outputs a b))
         \<longleftrightarrow> sum_list (map sr_amount (items spend_requests))
               \<ge> sum_list (map (\<lambda>i. amount (coin i)) inputs)"
  by (simp add: create_unsigned_transaction_result [OF assms] Let_def)

lemma single_input_succeeds:
  assumes "get_tree_hash E (puzzle_for_pk E (pubkey i)) = puzzle_hash (coin i)"
    and "sum_list (map sr_amount (items spend_requests)) < amount (coin i)"
  shows "\<exists>spends. snd (create_unsigned_transaction E (Some [i]) spend_requests True) = Inr spends"
  using assms by (simp add: create_unsigned_transaction_result Let_def)

text \<open>
  C1, at the inputs of the spec's end-to-end example: both puzzle hashes match and
  the output of 30 is less than the inputs' 150, and the call does not succeed: it
  raises \<open>AttributeError\<close> at line 120.
\<close>

theorem conservation_two_inputs:
  "get_tree_hash sample (puzzle_for_pk sample (pubkey input0)) = puzzle_hash (coin input0)
   \<and> get_tree_hash sample (puzzle_for_pk sample (pubkey input1)) = puzzle_hash (coin input1)
   \<and> sum_list (map sr_amount [output30]) < sum_list (map (\<lambda>i. amount (coin i)) [input0, input1])
   \<and> snd (create_unsigned_transaction sample (Some [input0, input1]) (Some [output30]) True)
        = Inl (AttributeError ''pubkey'')"
  by (simp add: create_unsigned_transaction_result sample_values)

text \<open>
  C2, at two inputs of which the one that is not the origin has a puzzle hash other
  than that of its key's puzzle: the call raises \<open>AttributeError\<close> at line 120, not
  the failure of a puzzle-hash check (the loop of lines 116-122 has none).
\<close>

theorem mismatch_of_other_input:
  "get_tree_hash sample (puzzle_for_pk sample (pubkey input0_other_hash))
     \<noteq> puzzle_hash (coin input0_other_hash)
   \<and> snd (create_unsigned_transaction sample (Some [input0_other_hash, input1]) (Some [output30]) True)
        = Inl (AttributeError ''pubkey'')"
  by (simp add: create_unsigned_transaction_result sample_values)

text \<open>
  C3. A call with two or more inputs never returns: when it passes the check of the
  amounts and the check of the origin's puzzle hash, the first turn of the loop over
  the other inputs raises \<open>AttributeError\<close> (line 120 reads \<open>coin.pubkey\<close>, not
  \<open>i["pubkey"]\<close>), so no coin solution is built for an input that is not the origin.
\<close>

theorem other_inputs_raise:
  assumes "2 \<le> length inputs"
  shows "snd (create_unsigned_transaction E (Some inputs) spend_requests validate) =
           (if validate \<and> sum_list (map sr_amount (items spend_requests))
                            \<ge> sum_list (map (\<lambda>i. amount (coin i)) inputs)
            then Inl (ValueError_outputs (sum_list (map (\<lambda>i. amount (coin i)) inputs))
                                         (sum_list (map sr_amount (items spend_requests))))
            else if get_tree_hash E (puzzle_for_pk E (pubkey (last inputs)))
                      \<noteq> puzzle_hash (coin (last inputs))
            then Inl AssertionError
            else Inl (AttributeError ''pubkey''))"
proof -
  from assms have ne: "inputs \<noteq> []" by auto
  from assms have "butlast inputs \<noteq> []"
    by (cases inputs) (auto split: if_splits)
  then show ?thesis
    by (simp add: create_unsigned_transaction_result [OF ne] Let_def)
qed

theorem other_inputs_raise_witness:
  "2 \<le> length [input0, input1]
   \<and> snd (create_unsigned_transaction sample (Some [input0, input1]) (Some [output30]) False)
       = Inl (AttributeError ''pubkey'')"
  using other_inputs_raise [of "[input0, input1]" sample "Some [output30]" False]
  by (simp add: sample_values)






text \<open>
  C5, as stated, fails: after a call on two inputs the caller's list is not the list
  that was passed.
\<close>

theorem inputs_popped_counterexample:
  "fst (fst (create_unsigned_transaction sample (Some [input0, input1]) (Some [output30]) True))
     \<noteq> Some [input0, input1]"
  by (simp add: create_unsigned_transaction_def Let_def)

text \<open>
  C5, amended. Whether the call returns or raises, it leaves \<open>spend_requests\<close> as it
  was and the caller's \<open>inputs\<close> without its last element (an empty or absent list
  stays as it is); the value returned or raised is a function of the arguments and
  of the imported functions.
\<close>

theorem inputs_popped:
  "fst (create_unsigned_transaction E inputs spend_requests validate)
     = (map_option butlast inputs, spend_requests)"
  by (cases inputs) (auto simp: create_unsigned_transaction_def Let_def)

section \<open>Properties of encode_spendbundle and decode_spendbundle\<close>

lemma below_16: "n < 16 \<Longrightarrow> n \<in> {0,1,2,3,4,5,6,7,8,9,10,11,12,13,14,15::nat}"
  by (simp only: insert_iff empty_iff) arith

lemma hexval_hexdigit: "n < 16 \<Longrightarrow> hexval (hexdigit n) = Some n"
  using below_16 [of n] by (auto simp: hexval_def hexdigit_def)

lemma not_isspace_hexdigit: "n < 16 \<Longrightarrow> \<not> isspace (hexdigit n)"
  using below_16 [of n] by (auto simp: isspace_def hexdigit_def)

lemma byte_of_digits: "(of_nat (16 * (unat b div 16) + unat b mod 16) :: byte) = b"
  by simp

lemma byte_digits_bound: "unat (b :: byte) div 16 < 16" "unat b mod 16 < 16"
proof -
  have "unat b < 256" using unsigned_less [of b, where ?'a = nat] by simp
  then show "unat b div 16 < 16" by (simp add: less_mult_imp_div_less)
  show "unat b mod 16 < 16" by simp
qed

lemma fromhex_hex: "fromhex (hex bs) = Inr bs"
proof (induction bs)
  case Nil
  show ?case by (simp add: hex_def)
next
  case (Cons b bs)
  have "hex (b # bs) = hexdigit (unat b div 16) # hexdigit (unat b mod 16) # hex bs"
    by (simp add: hex_def)
  then show ?case
    using Cons.IH byte_digits_bound [of b]
    by (simp add: hexval_hexdigit not_isspace_hexdigit byte_of_digits del: of_nat_add of_nat_mult)
qed

text \<open>The amount, and the fields of a coin, are read back from what was written.\<close>

lemma length_be_bytes: "length (be_bytes k n) = k"
  by (induction k arbitrary: n) auto

lemma be_int_snoc: "be_int (bs @ [b]) = be_int bs * 256 + uint b"
  by (simp add: be_int_def)

lemma be_int_be_bytes: "0 \<le> n \<Longrightarrow> n < 256 ^ k \<Longrightarrow> be_int (be_bytes k n) = n"
proof (induction k arbitrary: n)
  case 0
  then show ?case by (simp add: be_int_def)
next
  case (Suc k)
  have d: "0 \<le> n div 256" "n div 256 < 256 ^ k"
    using Suc.prems by (auto simp: div_less_iff_less_mult pos_imp_zdiv_nonneg_iff mult.commute)
  have "uint (of_int n :: byte) = n mod 256"
    by (simp add: uint_word_of_int)
  then show ?case
    using Suc.IH [OF d] by (simp add: be_int_snoc)
qed

lemma coin_of_coin_bytes:
  assumes "valid_coin c"
  shows "length (coin_bytes c) = 72"
    and "take 32 (coin_bytes c @ rest) = parent_coin_info c"
    and "take 32 (drop 32 (coin_bytes c @ rest)) = puzzle_hash c"
    and "be_int (take 8 (drop 64 (coin_bytes c @ rest))) = amount c"
    and "drop 72 (coin_bytes c @ rest) = rest"
  using assms
  by (simp_all add: valid_coin_def coin_bytes_def length_be_bytes be_int_be_bytes)

text \<open>Reading the coin solutions off what was written, one by one.\<close>

lemma coin_solutions_from_bytes_roundtrip:
  assumes "list_all (\<lambda>cs. valid_coin (cs_coin cs)) css"
    and "length sig = 96"
    and "\<And>cs rest. cs \<in> set css \<Longrightarrow> parse (ser (cs_solution cs) @ rest) = Some (cs_solution cs, rest)"
  shows "coin_solutions_from_bytes parse (concat (map (coin_solution_bytes ser) css) @ sig)
           = Inr (css, sig)"
  using assms
proof (induction css)
  case Nil
  then show ?case by simp
next
  case (Cons cs css)
  define rest where "rest = concat (map (coin_solution_bytes ser) css) @ sig"
  define bs where "bs = coin_bytes (cs_coin cs) @ ser (cs_solution cs) @ rest"
  from Cons.prems(1) have v: "valid_coin (cs_coin cs)" by simp
  have bs: "concat (map (coin_solution_bytes ser) (cs # css)) @ sig = bs"
    by (simp add: coin_solution_bytes_def bs_def rest_def)
  have len: "length bs = 72 + length (ser (cs_solution cs)) + length rest"
    using coin_of_coin_bytes(1) [OF v] by (simp add: bs_def)
  have rest: "96 \<le> length rest" using Cons.prems(2) by (simp add: rest_def)
  have d: "drop 72 bs = ser (cs_solution cs) @ rest"
    unfolding bs_def by (rule coin_of_coin_bytes(5) [OF v])
  have p: "parse (drop 72 bs) = Some (cs_solution cs, rest)"
    unfolding d using Cons.prems(3) by simp
  have f: "take 32 bs = parent_coin_info (cs_coin cs)"
    "take 32 (drop 32 bs) = puzzle_hash (cs_coin cs)"
    "be_int (take 8 (drop 64 bs)) = amount (cs_coin cs)"
    unfolding bs_def by (rule coin_of_coin_bytes(2,3,4) [OF v])+
  have ih: "coin_solutions_from_bytes parse rest = Inr (css, sig)"
    unfolding rest_def using Cons.IH Cons.prems by simp
  have "coin_solutions_from_bytes parse bs = Inr (cs # css, sig)"
    apply (subst coin_solutions_from_bytes.simps)
    using len rest p ih f
    by (simp del: coin_solutions_from_bytes.simps)
  with bs show ?case by simp
qed

text \<open>The length of what is written: two digits a byte, 72 bytes a coin.\<close>

lemma length_hex: "length (hex bs) = 2 * length bs"
  by (induction bs) (simp_all add: hex_def)

lemma length_coin_solutions_bytes:
  "list_all (\<lambda>cs. valid_coin (cs_coin cs)) css \<Longrightarrow>
     length (concat (map (coin_solution_bytes ser) css))
       = sum_list (map (\<lambda>cs. 72 + length (ser (cs_solution cs))) css)"
  by (induction css) (simp_all add: coin_solution_bytes_def coin_of_coin_bytes(1))

text \<open>
  C7. For every valid bundle \<open>b\<close> whose programs are read back from their encoding
  (the puzzle library's), \<open>encode_spendbundle\<close> returns the hexadecimal text of the
  concatenation of its coin solutions and its signature: one text, given by \<open>b\<close>,
  of two digits for each of the 72 bytes of every coin, of every program's encoding
  and of the 96 bytes of the signature, and no more; and \<open>decode_spendbundle\<close> of
  that text returns \<open>b\<close>.
\<close>

theorem decode_encode_spendbundle:
  assumes "valid_bundle b"
    and "\<And>cs rest. cs \<in> set (coin_solutions b) \<Longrightarrow>
           parse (ser (cs_solution cs) @ rest) = Some (cs_solution cs, rest)"
  shows "encode_spendbundle (SpendBundle_bytes ser) b
           = Inr (hex (concat (map (coin_solution_bytes ser) (coin_solutions b))
                       @ aggregated_signature b))
       \<and> decode_spendbundle (SpendBundle_from_bytes parse)
           (hex (concat (map (coin_solution_bytes ser) (coin_solutions b))
                 @ aggregated_signature b))
           = Inr b
       \<and> length (hex (concat (map (coin_solution_bytes ser) (coin_solutions b))
                      @ aggregated_signature b))
           = 2 * (sum_list (map (\<lambda>cs. 72 + length (ser (cs_solution cs))) (coin_solutions b))
                  + 96)"
proof -
  from assms(1) have v: "list_all (\<lambda>cs. valid_coin (cs_coin cs)) (coin_solutions b)"
    and s: "length (aggregated_signature b) = 96"
    by (simp_all add: valid_bundle_def)
  have "coin_solutions_from_bytes parse
          (concat (map (coin_solution_bytes ser) (coin_solutions b)) @ aggregated_signature b)
        = Inr (coin_solutions b, aggregated_signature b)"
    using v s assms(2) by (rule coin_solutions_from_bytes_roundtrip)
  then show ?thesis
    using assms(1)
    by (simp add: encode_spendbundle_def decode_spendbundle_def SpendBundle_bytes_def
        SpendBundle_from_bytes_def fromhex_hex length_hex length_coin_solutions_bytes [OF v] s)
qed

theorem decode_encode_spendbundle_witness:
  "valid_bundle sample_bundle
   \<and> (\<forall>rest. sample_program_from_bytes (sample_program_bytes [0x01, 0x02] @ rest)
               = Some ([0x01, 0x02], rest))
   \<and> (\<forall>rest. sample_program_from_bytes (sample_program_bytes [] @ rest) = Some ([], rest))
   \<and> (\<exists>s. encode_spendbundle (SpendBundle_bytes sample_program_bytes) sample_bundle = Inr s
          \<and> decode_spendbundle (SpendBundle_from_bytes sample_program_from_bytes) s
              = Inr sample_bundle)"
proof -
  have v: "valid_bundle sample_bundle"
    by (simp add: valid_bundle_def valid_coin_def sample_bundle_def)
  have p: "sample_program_from_bytes (sample_program_bytes (cs_solution cs) @ rest)
             = Some (cs_solution cs, rest)"
    if "cs \<in> set (coin_solutions sample_bundle)" for cs rest
    using that
    by (auto simp: sample_bundle_def sample_program_from_bytes_def sample_program_bytes_def)
  have q: "\<forall>rest. sample_program_from_bytes (sample_program_bytes [0x01, 0x02] @ rest)
               = Some ([0x01, 0x02], rest)"
       "\<forall>rest. sample_program_from_bytes (sample_program_bytes [] @ rest) = Some ([], rest)"
    by (simp_all add: sample_program_from_bytes_def sample_program_bytes_def)
  from decode_encode_spendbundle
         [where parse = sample_program_from_bytes and ser = sample_program_bytes, OF v p] v q
  show ?thesis by blast
qed

section \<open>Properties of create_unsigned_tx_from_json\<close>

lemma and_then_Inr:
  "and_then r f = Inr v \<longleftrightarrow> (\<exists>x. r = Inr x \<and> f x = Inr v)"
  by (cases r) (simp_all add: and_then_def)

lemma and_then_simps:
  "and_then (Inl e) f = Inl e" "and_then (Inr x) f = f x"
  by (simp_all add: and_then_def)

lemma getitem_field: "getitem x k = Inr v \<longleftrightarrow> field x k = Some v"
  by (cases x) (auto simp: getitem_def field_def split: option.splits)

lemma map_err_Inr:
  "map_err f xs = Inr ys \<Longrightarrow> list_all (\<lambda>x. \<exists>y. f x = Inr y) xs"
  by (induction xs arbitrary: ys) (auto split: sum.splits)

lemma list_all_weaken: "list_all P xs \<Longrightarrow> (\<And>x. P x \<Longrightarrow> Q x) \<Longrightarrow> list_all Q xs"
  by (induction xs) auto

text \<open>A step that returns has found every key it reads.\<close>

lemma input_coin_of_fields: "input_coin_of E i = Inr r \<Longrightarrow> input_fields i"
  by (auto simp: input_coin_of_def and_then_Inr getitem_field input_fields_def coin_fields_def)

lemma spend_request_of_fields: "spend_request_of E s = Inr r \<Longrightarrow> request_fields s"
  by (auto simp: spend_request_of_def and_then_Inr getitem_field request_fields_def)

lemma descriptive_arguments_fields:
  assumes "descriptive_arguments E s = Inr a"
  shows "descriptive_fields s"
proof -
  from assms obtain ic sr ics rs ri rr where
    f: "field s ''input_coins'' = Some ic" "field s ''spend_requests'' = Some sr"
    and i: "iterate ic = Inr ics" "iterate sr = Inr rs"
    and m: "map_err (input_coin_of E) ics = Inr ri" "map_err (spend_request_of E) rs = Inr rr"
    by (auto simp: descriptive_arguments_def and_then_Inr getitem_field)
  from m(1) have "list_all input_fields ics"
    by (auto dest!: map_err_Inr intro: input_coin_of_fields elim: list_all_weaken)
  moreover from m(2) have "list_all request_fields rs"
    by (auto dest!: map_err_Inr intro: spend_request_of_fields elim: list_all_weaken)
  ultimately show ?thesis
    using f i by (simp add: descriptive_fields_def elements_def)
qed

lemma descriptive_spends_fields: "descriptive_spends E s = Inr cs \<Longrightarrow> descriptive_fields s"
  by (auto simp: descriptive_spends_def and_then_Inr dest: descriptive_arguments_fields)

lemma raw_spend_fields: "raw_spend E s = Inr c \<Longrightarrow> raw_fields s"
  by (auto simp: raw_spend_def and_then_Inr getitem_field raw_fields_def coin_fields_def
      split: if_splits)

lemma entry_spends_fields: "entry_spends E s = Inr cs \<Longrightarrow> required_fields s"
  by (auto simp: entry_spends_def and_then_Inr required_fields_def
      dest: descriptive_spends_fields raw_spend_fields split: if_splits)

lemma spends_of_entries_fields:
  "spends_of_entries E es acc = Inr r \<Longrightarrow> list_all required_fields es"
  by (induction es arbitrary: acc) (auto split: sum.splits dest: entry_spends_fields)

text \<open>The loop stops at the first entry that raises.\<close>

lemma spends_of_entries_append:
  "spends_of_entries E (pre @ post) acc =
     (case spends_of_entries E pre acc of Inl e \<Rightarrow> Inl e | Inr a \<Rightarrow> spends_of_entries E post a)"
  by (induction pre arbitrary: acc) (auto split: sum.splits)

text \<open>An entry of neither form adds nothing and raises nothing.\<close>

lemma neither_form_skipped: "neither_form s \<Longrightarrow> entry_spends E s = Inr []"
  by (cases s) (auto simp: neither_form_def entry_spends_def contains_def and_then_def)

lemma spends_of_entries_filter:
  "spends_of_entries E (filter (\<lambda>s. \<not> neither_form s) es) acc = spends_of_entries E es acc"
  by (induction es arbitrary: acc) (auto simp: neither_form_skipped split: sum.splits)

lemma spends_of_entries_all_neither:
  "list_all neither_form es \<Longrightarrow> spends_of_entries E es acc = Inr acc"
  by (induction es arbitrary: acc) (auto simp: neither_form_skipped)

text \<open>
  The raw form's check (line 158): when the coin and the puzzle reveal are read and
  the tree hash of the puzzle is not the coin's puzzle hash, the entry raises
  \<open>AssertionError\<close>.
\<close>

lemma raw_spend_mismatch:
  assumes "field s ''input_coin'' = Some c"
    and "field c ''parent_id'' = Some p" and "hexstr_to_bytes E p = Inr parent"
    and "field c ''puzzle_hash'' = Some h" and "hexstr_to_bytes E h = Inr ph"
    and "field c ''amount'' = Some a" and "uint64 E a = Inr n"
    and "field s ''puzzle_reveal'' = Some pr" and "assemble E pr = Inr puzzle_reveal"
    and "get_tree_hash E puzzle_reveal \<noteq> ph"
  shows "raw_spend E s = Inl AssertionError"
  using assms by (simp add: raw_spend_def getitem_field [symmetric] and_then_simps)

text \<open>The sample entries, run.\<close>

lemmas parser_defs =
  entry_spends_def contains_def and_then_def raw_spend_def getitem_def descriptive_spends_def
  descriptive_arguments_def iterate_def input_coin_of_def spend_request_of_def typed_input_def
  typed_request_def summand_def sample_hexstr_to_bytes_def sample_uint64_def sample_assemble_def
  sample_from_bytes_def hexval_def isspace_def

lemma raw_entry_spends: "entry_spends sample raw_entry = Inr [raw_coin_solution]"
  by (simp add: parser_defs raw_entry_def raw_coin_solution_def sample_def sample_tree_hash_def)

lemma descriptive_entry_spends: "entry_spends sample descriptive_entry = Inr [origin_coin_solution]"
  by (simp add: parser_defs descriptive_entry_def origin_coin_solution_def sample_def
      sample_tree_hash_def input1_def create_unsigned_transaction_def Let_def make_solution_outputs)

text \<open>
  C8, as stated, fails: an entry of the raw form that lacks its \<open>"solution"\<close> raises
  nothing, and the bundle returned holds the other entry's coin solution only.
\<close>

theorem missing_solution_counterexample:
  "field raw_entry_without_solution ''solution'' = None
   \<and> create_unsigned_tx_from_json sample
         (JObj [(''spends'', JList [raw_entry, raw_entry_without_solution])])
       = Inr \<lparr>coin_solutions = [raw_coin_solution],
              aggregated_signature = G2Element_infinity sample\<rparr>"
proof -
  have "entry_spends sample raw_entry_without_solution = Inr []"
    by (simp add: parser_defs raw_entry_without_solution_def)
  then show ?thesis
    by (simp add: create_unsigned_tx_from_json_def and_then_simps getitem_def iterate_def
        raw_entry_spends field_def raw_entry_without_solution_def)
qed

text \<open>A field that is the first thing wrong raises the \<open>KeyError\<close> of its key.\<close>

lemma lacks_getitem: "lacks x k \<Longrightarrow> getitem x k = Inl (KeyError k)"
  by (cases x) (simp_all add: lacks_def getitem_def)

lemma decoded_getitem:
  "decoded f x k \<Longrightarrow> \<exists>v y. getitem x k = Inr v \<and> f v = Inr y"
  by (auto simp: decoded_def getitem_field split: option.splits sum.splits)

lemma field_getitem: "field x k \<noteq> None \<Longrightarrow> \<exists>v. getitem x k = Inr v"
  by (auto simp: getitem_field)

lemma input_lacks_raises: "input_lacks E i k \<Longrightarrow> input_coin_of E i = Inl (KeyError k)"
  unfolding input_lacks_def coin_lacks_def
  by (auto simp: input_coin_of_def and_then_simps lacks_getitem getitem_field [symmetric]
      dest!: decoded_getitem field_getitem split: option.splits)

lemma request_lacks_raises: "request_lacks E r k \<Longrightarrow> spend_request_of E r = Inl (KeyError k)"
  unfolding request_lacks_def
  by (auto simp: spend_request_of_def and_then_simps lacks_getitem dest!: decoded_getitem)

lemma raw_lacks_raises: "raw_lacks E s k \<Longrightarrow> raw_spend E s = Inl (KeyError k)"
  unfolding raw_lacks_def coin_lacks_def
  by (auto simp: raw_spend_def and_then_simps lacks_getitem getitem_field [symmetric]
      dest!: decoded_getitem field_getitem split: option.splits)

lemma map_err_find:
  "map_err f xs =
     (case find (\<lambda>x. isl (f x)) xs of
        None \<Rightarrow> Inr (map (\<lambda>x. projr (f x)) xs)
      | Some x \<Rightarrow> Inl (projl (f x)))"
  by (induction xs) (auto split: sum.splits option.splits)

lemma descriptive_lacks_raises:
  "descriptive_lacks E s k \<Longrightarrow> descriptive_arguments E s = Inl (KeyError k)"
  unfolding descriptive_lacks_def
  by (auto simp: descriptive_arguments_def and_then_simps lacks_getitem getitem_field [symmetric]
      map_err_find input_lacks_raises request_lacks_raises
      dest!: field_getitem split: option.splits sum.splits)

lemma entry_lacks_raises: "entry_lacks E s k \<Longrightarrow> entry_spends E s = Inl (KeyError k)"
  by (auto simp: entry_lacks_def entry_spends_def and_then_simps descriptive_spends_def
      descriptive_lacks_raises raw_lacks_raises split: if_splits)

text \<open>The call, at the first entry that raises.\<close>

lemma call_at_entry:
  assumes "field j ''spends'' = Some sp" and "iterate sp = Inr (pre @ s # post)"
    and "spends_of_entries E pre [] = Inr acc" and "entry_spends E s = Inl e"
  shows "create_unsigned_tx_from_json E j = Inl e"
  using assms
  by (simp add: create_unsigned_tx_from_json_def getitem_field [symmetric] and_then_simps
      spends_of_entries_append)

text \<open>
  A descriptive entry whose two comprehensions are evaluated is what line 150's call
  of \<open>create_unsigned_transaction\<close> returns or raises.
\<close>

lemma descriptive_entry_calls:
  assumes "contains ''spend_requests'' s = Inr True"
    and "descriptive_arguments E s = Inr (raw_inputs, raw_requests)"
    and "map_err typed_input raw_inputs = Inr inputs"
    and "map_err typed_request raw_requests = Inr requests"
  shows "entry_spends E s = snd (create_unsigned_transaction E (Some inputs) (Some requests) True)"
proof (cases raw_inputs)
  case Nil
  with assms(3) have "inputs = []" by simp
  with Nil assms show ?thesis
    by (simp add: entry_spends_def descriptive_spends_def and_then_simps
        create_unsigned_transaction_def)
next
  case (Cons r rs)
  with assms show ?thesis
    by (simp add: entry_spends_def descriptive_spends_def and_then_simps)
qed

lemma raw_entry_checks:
  assumes "contains ''spend_requests'' s = Inr False" and "contains ''solution'' s = Inr True"
    and "field s ''input_coin'' = Some c"
    and "field c ''parent_id'' = Some p" and "hexstr_to_bytes E p = Inr parent"
    and "field c ''puzzle_hash'' = Some h" and "hexstr_to_bytes E h = Inr ph"
    and "field c ''amount'' = Some a" and "uint64 E a = Inr n"
    and "field s ''puzzle_reveal'' = Some pr" and "assemble E pr = Inr puzzle_reveal"
    and "get_tree_hash E puzzle_reveal \<noteq> ph"
  shows "entry_spends E s = Inl AssertionError"
  using assms by (simp add: entry_spends_def and_then_simps raw_spend_mismatch)

lemma entry_without_pubkey_lacks: "entry_lacks sample entry_without_pubkey ''pubkey''"
  by (simp add: entry_lacks_def descriptive_lacks_def input_lacks_def coin_lacks_def lacks_def
      decoded_def field_def entry_without_pubkey_def contains_def iterate_def input_coin_of_def
      getitem_def and_then_def sample_def sample_hexstr_to_bytes_def hexval_def isspace_def)

lemma descriptive_entry_500_arguments:
  "descriptive_arguments sample descriptive_entry_500 =
     Inr ([([0x00], [0x50, 0x0a], JInt 100, [0x0a]), ([0x01], [0x50, 0x0b], JInt 50, [0x0b])],
          [([0x02], JInt 500)])"
  by (simp add: parser_defs descriptive_entry_500_def sample_def)

text \<open>
  C8, amended. A call that returns a bundle has found \<open>"spends"\<close>, and every entry
  that passed the test of line 131 or of line 151 has every field its form requires:
  a description in which such an entry lacks a required field never yields a bundle.
  A description without \<open>"spends"\<close> raises the \<open>KeyError\<close> of that key. At an entry
  reached by the loop (the entries before it were processed): a required field that
  is the first thing wrong with the entry raises the \<open>KeyError\<close> of its key; an
  exception raised by \<open>create_unsigned_transaction\<close> at line 150 is the exception of
  the call, unchanged; and a puzzle reveal whose tree hash is not the coin's puzzle
  hash raises the \<open>AssertionError\<close> of line 158.
\<close>

theorem missing_field_fails:
  "(create_unsigned_tx_from_json E j = Inr sb \<longrightarrow>
      (\<exists>sp entries. field j ''spends'' = Some sp \<and> iterate sp = Inr entries
                     \<and> list_all required_fields entries))
   \<and> (lacks j ''spends'' \<longrightarrow> create_unsigned_tx_from_json E j = Inl (KeyError ''spends''))
   \<and> (field j ''spends'' = Some sp \<and> iterate sp = Inr (pre @ s # post)
        \<and> spends_of_entries E pre [] = Inr acc \<longrightarrow>
      (entry_lacks E s k \<longrightarrow> create_unsigned_tx_from_json E j = Inl (KeyError k))
      \<and> (contains ''spend_requests'' s = Inr True
           \<and> descriptive_arguments E s = Inr (raw_inputs, raw_requests)
           \<and> map_err typed_input raw_inputs = Inr inputs
           \<and> map_err typed_request raw_requests = Inr requests
           \<and> snd (create_unsigned_transaction E (Some inputs) (Some requests) True) = Inl e \<longrightarrow>
         create_unsigned_tx_from_json E j = Inl e)
      \<and> (contains ''spend_requests'' s = Inr False \<and> contains ''solution'' s = Inr True
           \<and> field s ''input_coin'' = Some c
           \<and> field c ''parent_id'' = Some p \<and> hexstr_to_bytes E p = Inr parent
           \<and> field c ''puzzle_hash'' = Some h \<and> hexstr_to_bytes E h = Inr ph
           \<and> field c ''amount'' = Some a \<and> uint64 E a = Inr n
           \<and> field s ''puzzle_reveal'' = Some pr \<and> assemble E pr = Inr puzzle_reveal
           \<and> get_tree_hash E puzzle_reveal \<noteq> ph \<longrightarrow>
         create_unsigned_tx_from_json E j = Inl AssertionError))"
proof (intro conjI impI)
  assume "create_unsigned_tx_from_json E j = Inr sb"
  then show "\<exists>sp entries. field j ''spends'' = Some sp \<and> iterate sp = Inr entries
                     \<and> list_all required_fields entries"
    by (auto simp: create_unsigned_tx_from_json_def and_then_Inr getitem_field
        dest: spends_of_entries_fields)
next
  assume "lacks j ''spends''"
  then show "create_unsigned_tx_from_json E j = Inl (KeyError ''spends'')"
    by (simp add: create_unsigned_tx_from_json_def lacks_getitem and_then_simps)
next
  assume reached: "field j ''spends'' = Some sp \<and> iterate sp = Inr (pre @ s # post)
        \<and> spends_of_entries E pre [] = Inr acc"
  {
    assume "entry_lacks E s k"
    then have "entry_spends E s = Inl (KeyError k)" by (rule entry_lacks_raises)
    with reached show "create_unsigned_tx_from_json E j = Inl (KeyError k)"
      by (simp add: call_at_entry)
  next
    assume "contains ''spend_requests'' s = Inr True
           \<and> descriptive_arguments E s = Inr (raw_inputs, raw_requests)
           \<and> map_err typed_input raw_inputs = Inr inputs
           \<and> map_err typed_request raw_requests = Inr requests
           \<and> snd (create_unsigned_transaction E (Some inputs) (Some requests) True) = Inl e"
    then have "entry_spends E s = Inl e" by (simp add: descriptive_entry_calls)
    with reached show "create_unsigned_tx_from_json E j = Inl e"
      by (simp add: call_at_entry)
  next
    assume "contains ''spend_requests'' s = Inr False \<and> contains ''solution'' s = Inr True
           \<and> field s ''input_coin'' = Some c
           \<and> field c ''parent_id'' = Some p \<and> hexstr_to_bytes E p = Inr parent
           \<and> field c ''puzzle_hash'' = Some h \<and> hexstr_to_bytes E h = Inr ph
           \<and> field c ''amount'' = Some a \<and> uint64 E a = Inr n
           \<and> field s ''puzzle_reveal'' = Some pr \<and> assemble E pr = Inr puzzle_reveal
           \<and> get_tree_hash E puzzle_reveal \<noteq> ph"
    then have "entry_spends E s = Inl AssertionError" by (simp add: raw_entry_checks)
    with reached show "create_unsigned_tx_from_json E j = Inl AssertionError"
      by (simp add: call_at_entry)
  }
qed

theorem missing_field_fails_witness:
  "create_unsigned_tx_from_json sample (JObj [(''spends'', JList [raw_entry, entry_without_pubkey])])
     = Inl (KeyError ''pubkey'')
   \<and> snd (create_unsigned_transaction sample (Some [input0, input1])
            (Some [\<lparr>sr_puzzle_hash = [0x02], sr_amount = 500\<rparr>]) True)
       = Inl (ValueError_outputs 150 500)
   \<and> create_unsigned_tx_from_json sample
         (JObj [(''spends'', JList [raw_entry, descriptive_entry_500])])
       = Inl (ValueError_outputs 150 500)
   \<and> create_unsigned_tx_from_json sample
         (JObj [(''spends'', JList [raw_entry, raw_entry_other_hash])])
       = Inl AssertionError"
proof -
  have pre: "spends_of_entries sample [raw_entry] [] = Inr [raw_coin_solution]"
    by (simp add: raw_entry_spends)
  have a: "snd (create_unsigned_transaction sample (Some [input0, input1])
            (Some [\<lparr>sr_puzzle_hash = [0x02], sr_amount = 500\<rparr>]) True)
       = Inl (ValueError_outputs 150 500)"
    by (simp add: create_unsigned_transaction_result sample_values)
  have t: "map_err typed_input
             [([0x00], [0x50, 0x0a], JInt 100, [0x0a]), ([0x01], [0x50, 0x0b], JInt 50, [0x0b])]
           = Inr [input0, input1 :: bytes tx_input]"
       "map_err typed_request [([0x02], JInt 500)]
           = Inr [\<lparr>sr_puzzle_hash = [0x02], sr_amount = 500\<rparr>]"
    by (simp_all add: typed_input_def typed_request_def summand_def and_then_def input0_def
        input1_def)
  have k: "create_unsigned_tx_from_json sample
             (JObj [(''spends'', JList [raw_entry, entry_without_pubkey])])
           = Inl (KeyError ''pubkey'')"
    using missing_field_fails
      [where E = sample and j = "JObj [(''spends'', JList [raw_entry, entry_without_pubkey])]"
         and sp = "JList [raw_entry, entry_without_pubkey]" and pre = "[raw_entry]"
         and s = entry_without_pubkey and post = "[]" and acc = "[raw_coin_solution]"
         and k = "''pubkey''"]
      pre entry_without_pubkey_lacks
    by (simp add: field_def iterate_def)
  have v: "create_unsigned_tx_from_json sample
             (JObj [(''spends'', JList [raw_entry, descriptive_entry_500])])
           = Inl (ValueError_outputs 150 500)"
    using missing_field_fails
      [where E = sample and j = "JObj [(''spends'', JList [raw_entry, descriptive_entry_500])]"
         and sp = "JList [raw_entry, descriptive_entry_500]" and pre = "[raw_entry]"
         and s = descriptive_entry_500 and post = "[]" and acc = "[raw_coin_solution]"
         and raw_inputs = "[([0x00], [0x50, 0x0a], JInt 100, [0x0a]),
                            ([0x01], [0x50, 0x0b], JInt 50, [0x0b])]"
         and raw_requests = "[([0x02], JInt 500)]"
         and inputs = "[input0, input1]"
         and requests = "[\<lparr>sr_puzzle_hash = [0x02], sr_amount = 500\<rparr>]"
         and e = "ValueError_outputs 150 500"]
      pre a t descriptive_entry_500_arguments
    by (simp add: field_def iterate_def contains_def descriptive_entry_500_def)
  have h: "create_unsigned_tx_from_json sample
             (JObj [(''spends'', JList [raw_entry, raw_entry_other_hash])])
           = Inl AssertionError"
    using missing_field_fails
      [where E = sample and j = "JObj [(''spends'', JList [raw_entry, raw_entry_other_hash])]"
         and sp = "JList [raw_entry, raw_entry_other_hash]" and pre = "[raw_entry]"
         and s = raw_entry_other_hash and post = "[]" and acc = "[raw_coin_solution]"
         and c = "JObj [(''parent_id'', JStr ''07''), (''puzzle_hash'', JStr ''ffff''),
                        (''amount'', JInt 5)]"
         and p = "JStr ''07''" and parent = "[0x07]" and h = "JStr ''ffff''"
         and ph = "[0xff, 0xff]" and a = "JInt 5" and n = 5 and pr = "JStr ''(q 1)''"
         and puzzle_reveal = "Source ''(q 1)''"]
      pre
    by (simp add: field_def iterate_def contains_def raw_entry_other_hash_def sample_def
        sample_hexstr_to_bytes_def sample_uint64_def sample_assemble_def sample_tree_hash_def
        hexval_def isspace_def)
  from k a v h show ?thesis by simp
qed

text \<open>
  C9. Every bundle \<open>create_unsigned_tx_from_json\<close> returns has
  \<open>G2Element.infinity()\<close> as its aggregated signature.
\<close>

theorem unsigned_bundle:
  assumes "create_unsigned_tx_from_json E j = Inr sb"
  shows "aggregated_signature sb = G2Element_infinity E"
  using assms by (auto simp: create_unsigned_tx_from_json_def and_then_Inr)

theorem unsigned_bundle_witness:
  "create_unsigned_tx_from_json sample (JObj [(''spends'', JList [descriptive_entry, raw_entry])])
     = Inr \<lparr>coin_solutions = [origin_coin_solution, raw_coin_solution],
            aggregated_signature = 0xc0 # replicate 95 0\<rparr>
   \<and> aggregated_signature
        \<lparr>coin_solutions = [origin_coin_solution, raw_coin_solution],
         aggregated_signature = 0xc0 # replicate 95 (0 :: byte)\<rparr>
     = G2Element_infinity sample"
proof -
  have c: "create_unsigned_tx_from_json sample
             (JObj [(''spends'', JList [descriptive_entry, raw_entry])])
     = Inr \<lparr>coin_solutions = [origin_coin_solution, raw_coin_solution],
            aggregated_signature = G2Element_infinity sample\<rparr>"
    by (simp add: create_unsigned_tx_from_json_def and_then_simps getitem_def iterate_def
        descriptive_entry_spends raw_entry_spends)
  from unsigned_bundle [OF c] c show ?thesis by (simp add: sample_def)
qed

text \<open>
  C10. When \<open>"spends"\<close> is a list, the entries that are dicts with neither a
  \<open>"spend_requests"\<close> nor a \<open>"solution"\<close> key are passed over: the call does what it
  does on the description without them. When every entry is such (or the list is
  empty) the call returns the bundle with no coin solution and the signature
  \<open>G2Element.infinity()\<close>.
\<close>

theorem entries_of_neither_form:
  assumes "getitem j ''spends'' = Inr (JList entries)"
  shows "create_unsigned_tx_from_json E j =
           create_unsigned_tx_from_json E
             (JObj [(''spends'', JList (filter (\<lambda>s. \<not> neither_form s) entries))])
       \<and> ((\<forall>s \<in> set entries. neither_form s) \<longrightarrow>
            create_unsigned_tx_from_json E j =
              Inr \<lparr>coin_solutions = [], aggregated_signature = G2Element_infinity E\<rparr>)"
  using assms
  by (auto simp: create_unsigned_tx_from_json_def and_then_simps getitem_def iterate_def
      spends_of_entries_filter spends_of_entries_all_neither list_all_iff)

theorem entries_of_neither_form_witness:
  "getitem (JObj [(''spends'', JList [JObj [(''memo'', JStr ''x'')], JObj []])]) ''spends''
     = Inr (JList [JObj [(''memo'', JStr ''x'')], JObj []])
   \<and> create_unsigned_tx_from_json sample
         (JObj [(''spends'', JList [JObj [(''memo'', JStr ''x'')], JObj []])])
       = Inr \<lparr>coin_solutions = [], aggregated_signature = G2Element_infinity sample\<rparr>"
  using entries_of_neither_form
    [of "JObj [(''spends'', JList [JObj [(''memo'', JStr ''x'')], JObj []])]"
        "[JObj [(''memo'', JStr ''x'')], JObj []]" sample, THEN conjunct2]
  by (simp add: getitem_def neither_form_def)

end
